theory Spec2Isabelle
  imports Main "HOL-Library.Char_ord" "HOL-Library.List_Lexorder"
begin

section \<open>sublimedsl.keymap: a shallow embedding\<close>

text \<open>
  The module \<^verbatim>\<open>sublimedsl/keymap.py\<close> builds key bindings as mutable Python objects
  (\<^verbatim>\<open>Keymap\<close>, \<^verbatim>\<open>Binding\<close>, \<^verbatim>\<open>Context\<close>) and serialises them with a custom JSON encoder.
  Objects are shared by reference and mutated in place, so the embedding keeps them in an
  explicit store: one list per class, an object's address being its index in that list.
  Every operation takes the store and returns the updated one.
\<close>

subsection \<open>Python values and exceptions\<close>

type_synonym ref = nat

text \<open>
  The values an attribute can hold when the encoder reads it. \<open>PContext\<close> and \<open>PBinding\<close>
  are instances of the two classes as the encoder sees them: the values of their public
  attributes at the time of serialisation.
\<close>

datatype pyval =
    PNone
  | PBool bool
  | PInt int
  | PStr string
  | PList "pyval list"
  | PTuple "pyval list"
  | PDict "(string \<times> pyval) list"
  | PContext pyval "string option" pyval "bool option"
  | PBinding "string list" "string option" pyval "pyval list"

datatype py_error = AttributeError | TypeError

subsection \<open>The three classes and the store\<close>

text \<open>
  \<^verbatim>\<open>Context.__init__\<close> assigns \<^verbatim>\<open>key, operator, operand, match_all, _parent\<close>;
  \<^verbatim>\<open>Binding.__init__\<close> assigns \<^verbatim>\<open>keys, command, args, context\<close>;
  \<^verbatim>\<open>Keymap.__init__\<close> assigns \<^verbatim>\<open>_default_match_all, _common_context, _bindings\<close>.
  \<open>parent\<close> is the address of the owning \<^verbatim>\<open>Binding\<close> (the only parent the module itself
  ever passes, in \<^verbatim>\<open>Binding.when\<close>); the elements of \<open>context'\<close> and \<open>common_context\<close>
  are addresses of \<^verbatim>\<open>Context\<close> objects and those of \<open>bindings\<close> addresses of
  \<^verbatim>\<open>Binding\<close> objects. \<open>keys\<close> is a Python tuple of strings, \<open>args\<close> is the
  list \<^verbatim>\<open>[]\<close> until \<^verbatim>\<open>to\<close> stores a dict. \<open>key\<close> is documented as a string;
  \<^verbatim>\<open>Context.__init__\<close> stores whatever value it is given.
\<close>

record Context =
  key :: pyval
  operator :: "string option"
  operand :: pyval
  match_all :: "bool option"
  parent :: "ref option"

record Binding =
  keys :: "string list"
  command :: "string option"
  args :: pyval
  context' :: "ref list"

record Keymap =
  default_match_all :: "bool option"
  common_context :: "ref list"
  bindings :: "ref list"

record heap =
  h_contexts :: "Context list"
  h_bindings :: "Binding list"
  h_keymaps :: "Keymap list"

definition empty_heap :: heap where
  "empty_heap = \<lparr>h_contexts = [], h_bindings = [], h_keymaps = []\<rparr>"

text \<open>A store is well formed when no object refers to an address that is not allocated.\<close>

definition wf_heap :: "heap \<Rightarrow> bool" where
  "wf_heap h \<longleftrightarrow>
     (\<forall>c \<in> set (h_contexts h). \<forall>p. parent c = Some p \<longrightarrow> p < length (h_bindings h)) \<and>
     (\<forall>b \<in> set (h_bindings h). \<forall>c \<in> set (context' b). c < length (h_contexts h)) \<and>
     (\<forall>k \<in> set (h_keymaps h).
        (\<forall>c \<in> set (common_context k). c < length (h_contexts h)) \<and>
        (\<forall>b \<in> set (bindings k). b < length (h_bindings h)))"

subsection \<open>Binding\<close>

text \<open>
  \<^verbatim>\<open>Binding.__init__(self, *keys)\<close> stores the tuple of keys as it is given and raises
  nothing; \<open>Inr\<close> carries the updated store and the address of the new object.
\<close>

definition Binding_init :: "heap \<Rightarrow> string list \<Rightarrow> py_error + heap \<times> ref" where
  "Binding_init h ks =
     Inr (h\<lparr>h_bindings := h_bindings h @
              [\<lparr>keys = ks, command = None, args = PList [], context' = []\<rparr>]\<rparr>,
          length (h_bindings h))"

text \<open>\<^verbatim>\<open>Binding.to(self, command, **args)\<close> returns \<^verbatim>\<open>self\<close>.\<close>

definition Binding_to :: "heap \<Rightarrow> ref \<Rightarrow> string \<Rightarrow> (string \<times> pyval) list \<Rightarrow> heap \<times> ref" where
  "Binding_to h self cmd kwargs =
     (h\<lparr>h_bindings := (h_bindings h)
           [self := (h_bindings h ! self)\<lparr>command := Some cmd, args := PDict kwargs\<rparr>]\<rparr>,
      self)"

subsection \<open>Context\<close>

definition Context_init :: "heap \<Rightarrow> pyval \<Rightarrow> ref option \<Rightarrow> heap \<times> ref" where
  "Context_init h k p =
     (h\<lparr>h_contexts := h_contexts h @
          [\<lparr>key = k, operator = None, operand = PNone, match_all = None, parent = p\<rparr>]\<rparr>,
      length (h_contexts h))"

text \<open>\<^verbatim>\<open>Binding.when(self, key)\<close> creates a condition owned by the binding and returns it.\<close>

definition Binding_when :: "heap \<Rightarrow> ref \<Rightarrow> pyval \<Rightarrow> heap \<times> ref" where
  "Binding_when h self k =
     (let (h1, ctx) = Context_init h k (Some self);
          b = h_bindings h1 ! self
      in (h1\<lparr>h_bindings := (h_bindings h1)[self := b\<lparr>context' := context' b @ [ctx]\<rparr>]\<rparr>, ctx))"

definition Context_all :: "heap \<Rightarrow> ref \<Rightarrow> heap \<times> ref" where
  "Context_all h self =
     (h\<lparr>h_contexts := (h_contexts h)[self := (h_contexts h ! self)\<lparr>match_all := Some True\<rparr>]\<rparr>,
      self)"

definition Context_any :: "heap \<Rightarrow> ref \<Rightarrow> heap \<times> ref" where
  "Context_any h self =
     (h\<lparr>h_contexts := (h_contexts h)[self := (h_contexts h ! self)\<lparr>match_all := Some False\<rparr>]\<rparr>,
      self)"

text \<open>
  An operator method returns \<^verbatim>\<open>self._parent or self\<close>: a reference to the owning binding
  or to the condition. A \<^verbatim>\<open>Binding\<close> defines neither \<^verbatim>\<open>__bool__\<close> nor \<^verbatim>\<open>__len__\<close>,
  so a parent that is set is always truthy.
\<close>

text \<open>
  What a call on a condition returns: a reference to a condition or to a binding,
  \<^verbatim>\<open>None\<close>, or the callable \<^verbatim>\<open>partial(self._operator, name)\<close> of a condition.
\<close>

datatype retval = ContextRef ref | BindingRef ref | NoneValue | OperatorPartial ref string

definition OPERATORS :: "string list" where
  "OPERATORS = [''equal'', ''not_equal'', ''regex_match'', ''not_regex_match'',
                ''regex_contains'', ''not_regex_contains'']"

definition Context_operator :: "heap \<Rightarrow> ref \<Rightarrow> string \<Rightarrow> pyval \<Rightarrow> heap \<times> retval" where
  "Context_operator h self opr opd =
     (let c = h_contexts h ! self
      in (h\<lparr>h_contexts := (h_contexts h)[self := c\<lparr>operator := Some opr, operand := opd\<rparr>]\<rparr>,
          case parent c of Some p \<Rightarrow> BindingRef p | None \<Rightarrow> ContextRef self))"

definition Context_true :: "heap \<Rightarrow> ref \<Rightarrow> heap \<times> retval" where
  "Context_true h self = Context_operator h self ''equal'' (PBool True)"

definition Context_false :: "heap \<Rightarrow> ref \<Rightarrow> heap \<times> retval" where
  "Context_false h self = Context_operator h self ''equal'' (PBool False)"

text \<open>
  \<^verbatim>\<open>Context.__getattr__(self, name)\<close> is what Python calls for a name the ordinary lookup
  does not find. It returns \<^verbatim>\<open>partial(self._operator, name)\<close>, a callable still waiting
  for the operand (and, here, for the store at the time of the call), or raises
  \<^verbatim>\<open>AttributeError\<close>.
\<close>

definition Context_getattr ::
  "ref \<Rightarrow> string \<Rightarrow> py_error + (heap \<Rightarrow> pyval \<Rightarrow> heap \<times> retval)" where
  "Context_getattr self name =
     (if name \<in> set OPERATORS then Inr (\<lambda>h opd. Context_operator h self name opd)
      else Inl AttributeError)"

text \<open>
  The names that the ordinary lookup finds on a condition because the module defines
  them: the attributes that \<^verbatim>\<open>__init__\<close> assigns, and the attributes of the class.
\<close>

definition Context_attributes :: "string list" where
  "Context_attributes =
     [''key'', ''operator'', ''operand'', ''match_all'', ''_parent'',
      ''_OPERATORS'', ''__init__'', ''all'', ''any'', ''true'', ''false'', ''_operator'',
      ''__getattr__'', ''__str__'']"

text \<open>
  The call \<^verbatim>\<open>ctx.name(arg)\<close> for one of these names. \<^verbatim>\<open>__init__\<close> initialises the
  condition again, with \<^verbatim>\<open>arg\<close> as key and no parent, and returns \<^verbatim>\<open>None\<close>.
  \<^verbatim>\<open>__getattr__\<close> is the hook itself, called with \<^verbatim>\<open>arg\<close> as the name:
  \<^verbatim>\<open>arg in self._OPERATORS\<close> holds for the six strings only. Every other name raises
  \<^verbatim>\<open>TypeError\<close>: the five attributes of the instance and \<^verbatim>\<open>_OPERATORS\<close> hold values
  that cannot be called, \<^verbatim>\<open>all\<close>, \<^verbatim>\<open>any\<close>, \<^verbatim>\<open>true\<close>, \<^verbatim>\<open>false\<close> and
  \<^verbatim>\<open>__str__\<close> take no argument, and \<^verbatim>\<open>_operator\<close> needs two.
\<close>

definition Context_call_attribute ::
  "heap \<Rightarrow> ref \<Rightarrow> string \<Rightarrow> pyval \<Rightarrow> py_error + heap \<times> retval" where
  "Context_call_attribute h self name arg =
     (if name = ''__init__'' then
        Inr (h\<lparr>h_contexts := (h_contexts h)
                 [self := \<lparr>key = arg, operator = None, operand = PNone, match_all = None,
                           parent = None\<rparr>]\<rparr>,
             NoneValue)
      else if name = ''__getattr__'' then
        (case arg of
           PStr s \<Rightarrow>
             (case Context_getattr self s of
                Inl e \<Rightarrow> Inl e
              | Inr f \<Rightarrow> Inr (h, OperatorPartial self s))
         | _ \<Rightarrow> Inl AttributeError)
      else Inl TypeError)"

text \<open>
  Besides the names the module defines, the lookup finds the names that the interpreter
  provides on every instance and class, such as \<^verbatim>\<open>__class__\<close>, \<^verbatim>\<open>__eq__\<close> or
  \<^verbatim>\<open>__dict__\<close>. Which names these are depends on the version of Python, and what
  calling one does is not code of this module; all of them begin with two underscores.
  Both are parameters of the functions below: \<open>inherited\<close> says for which of the names
  beginning with two underscores the lookup succeeds, \<open>inherited_call\<close> what the call of
  such an attribute does.
\<close>

definition is_dunder :: "string \<Rightarrow> bool" where
  "is_dunder name \<longleftrightarrow> take 2 name = ''__''"

text \<open>
  The call \<^verbatim>\<open>getattr(ctx, name)(operand)\<close>, that is \<^verbatim>\<open>ctx.name(operand)\<close>: the ordinary
  lookup first, and \<^verbatim>\<open>__getattr__\<close> for a name that it does not find.
\<close>

definition Context_compare ::
  "(string \<Rightarrow> bool) \<Rightarrow> (string \<Rightarrow> heap \<Rightarrow> ref \<Rightarrow> pyval \<Rightarrow> py_error + heap \<times> retval) \<Rightarrow>
     heap \<Rightarrow> ref \<Rightarrow> string \<Rightarrow> pyval \<Rightarrow> py_error + heap \<times> retval" where
  "Context_compare inherited inherited_call h self name opd =
     (if name \<in> set Context_attributes then Context_call_attribute h self name opd
      else if is_dunder name \<and> inherited name then inherited_call name h self opd
      else (case Context_getattr self name of Inl e \<Rightarrow> Inl e | Inr f \<Rightarrow> Inr (f h opd)))"

text \<open>
  Sample values for the two parameters, for statements at names where they play no part.
\<close>

definition nothing_inherited :: "string \<Rightarrow> bool" where
  "nothing_inherited name \<longleftrightarrow> False"

definition no_inherited_call ::
  "string \<Rightarrow> heap \<Rightarrow> ref \<Rightarrow> pyval \<Rightarrow> py_error + heap \<times> retval" where
  "no_inherited_call name h self arg = Inl AttributeError"

text \<open>
  Neither \<^verbatim>\<open>Context\<close> nor any base class of it defines \<^verbatim>\<open>__eq__\<close>, so \<^verbatim>\<open>a == b\<close>
  is the comparison inherited from \<^verbatim>\<open>object\<close>: true exactly when both operands are the
  same object.
\<close>

definition Context_eq :: "ref \<Rightarrow> ref \<Rightarrow> bool" where
  "Context_eq a b \<longleftrightarrow> a = b"

text \<open>The comparison the specification describes: the four public attributes agree.\<close>

definition spec_public_attrs_equal :: "Context \<Rightarrow> Context \<Rightarrow> bool" where
  "spec_public_attrs_equal a b \<longleftrightarrow>
     key a = key b \<and> operator a = operator b \<and> operand a = operand b \<and> match_all a = match_all b"

subsection \<open>Keymap: the preprocessing pipeline\<close>

text \<open>
  What a caller passes in \<^verbatim>\<open>*bindings\<close>: bindings, keymaps, and lists or tuples of
  such items, nested to any depth.
\<close>

datatype item = BindingObj ref | KeymapObj ref | PyList "item list" | PyTuple "item list"

fun wf_item :: "heap \<Rightarrow> item \<Rightarrow> bool" where
  "wf_item h (BindingObj r) \<longleftrightarrow> r < length (h_bindings h)"
| "wf_item h (KeymapObj k) \<longleftrightarrow> k < length (h_keymaps h)"
| "wf_item h (PyList xs) \<longleftrightarrow> list_all (wf_item h) xs"
| "wf_item h (PyTuple xs) \<longleftrightarrow> list_all (wf_item h) xs"

text \<open>
  \<^verbatim>\<open>copy.deepcopy\<close> clones the object graph that its argument reaches, sharing included:
  an object reached twice is cloned once, and a reference inside a clone points to the clone
  of its target. Here every allocated object is cloned, the clone of the object at address
  \<open>a\<close> being allocated at \<open>a\<close> plus the number of objects of its class before the call;
  clones of objects that the argument does not reach are referred to by nothing afterwards.
  The originals are left as they are.
\<close>

definition copy_Context :: "nat \<Rightarrow> Context \<Rightarrow> Context" where
  "copy_Context nb c = c\<lparr>parent := map_option (\<lambda>p. p + nb) (parent c)\<rparr>"

definition copy_Binding :: "nat \<Rightarrow> Binding \<Rightarrow> Binding" where
  "copy_Binding nc b = b\<lparr>context' := map (\<lambda>c. c + nc) (context' b)\<rparr>"

definition copy_Keymap :: "nat \<Rightarrow> nat \<Rightarrow> Keymap \<Rightarrow> Keymap" where
  "copy_Keymap nc nb k =
     k\<lparr>common_context := map (\<lambda>c. c + nc) (common_context k),
       bindings := map (\<lambda>b. b + nb) (bindings k)\<rparr>"

fun copy_item :: "nat \<Rightarrow> nat \<Rightarrow> item \<Rightarrow> item" where
  "copy_item nb nk (BindingObj r) = BindingObj (r + nb)"
| "copy_item nb nk (KeymapObj k) = KeymapObj (k + nk)"
| "copy_item nb nk (PyList xs) = PyList (map (copy_item nb nk) xs)"
| "copy_item nb nk (PyTuple xs) = PyTuple (map (copy_item nb nk) xs)"

definition clone_heap :: "heap \<Rightarrow> heap" where
  "clone_heap h =
     \<lparr>h_contexts = h_contexts h @ map (copy_Context (length (h_bindings h))) (h_contexts h),
      h_bindings = h_bindings h @ map (copy_Binding (length (h_contexts h))) (h_bindings h),
      h_keymaps = h_keymaps h @
        map (copy_Keymap (length (h_contexts h)) (length (h_bindings h))) (h_keymaps h)\<rparr>"

definition deepcopy :: "heap \<Rightarrow> item list \<Rightarrow> heap \<times> item list" where
  "deepcopy h xs =
     (clone_heap h, map (copy_item (length (h_bindings h)) (length (h_keymaps h))) xs)"

text \<open>
  \<^verbatim>\<open>lflatten(seq, follow=isa(list, tuple, Keymap))\<close> walks into lists, tuples and keymaps.
  Iterating a keymap is \<^verbatim>\<open>Keymap.__iter__\<close>, that is \<^verbatim>\<open>iter(self._bindings)\<close>; what it
  yields are bindings, which are not followed.
\<close>

fun flatten :: "heap \<Rightarrow> item \<Rightarrow> ref list" where
  "flatten h (BindingObj r) = [r]"
| "flatten h (KeymapObj k) = bindings (h_keymaps h ! k)"
| "flatten h (PyList xs) = concat (map (flatten h) xs)"
| "flatten h (PyTuple xs) = concat (map (flatten h) xs)"

definition lflatten :: "heap \<Rightarrow> item list \<Rightarrow> ref list" where
  "lflatten h xs = concat (map (flatten h) xs)"

text \<open>
  \<^verbatim>\<open>_apply_common_context\<close>: the loop body \<^verbatim>\<open>binding.context.extend(self._common_context)\<close>
  appends the references held in the keymap's list to the binding's own list.
\<close>

definition extend_context :: "ref list \<Rightarrow> heap \<Rightarrow> ref \<Rightarrow> heap" where
  "extend_context cc h r =
     h\<lparr>h_bindings := (h_bindings h)
          [r := (h_bindings h ! r)\<lparr>context' := context' (h_bindings h ! r) @ cc\<rparr>]\<rparr>"

definition apply_common_context :: "Keymap \<Rightarrow> heap \<Rightarrow> ref list \<Rightarrow> heap \<times> ref list" where
  "apply_common_context self h bs = (foldl (extend_context (common_context self)) h bs, bs)"

text \<open>
  \<^verbatim>\<open>_apply_default_match_all\<close>: the loop runs over
  \<^verbatim>\<open>flatten(pluck_attr('context', bindings))\<close>, the conditions of all bindings of the batch
  in order. Its body changes \<^verbatim>\<open>match_all\<close> only, never a \<^verbatim>\<open>context\<close> list, so the
  sequence it runs over is the one read from the store at entry.
\<close>

definition set_default_match_all :: "bool option \<Rightarrow> heap \<Rightarrow> ref \<Rightarrow> heap" where
  "set_default_match_all d h c =
     (if match_all (h_contexts h ! c) = None
      then h\<lparr>h_contexts := (h_contexts h)[c := (h_contexts h ! c)\<lparr>match_all := d\<rparr>]\<rparr>
      else h)"

definition apply_default_match_all :: "Keymap \<Rightarrow> heap \<Rightarrow> ref list \<Rightarrow> heap \<times> ref list" where
  "apply_default_match_all self h bs =
     (foldl (set_default_match_all (default_match_all self)) h
        (concat (map (\<lambda>b. context' (h_bindings h ! b)) bs)), bs)"

text \<open>
  \<^verbatim>\<open>_preprocess\<close> is the composition, left to right, of \<^verbatim>\<open>deepcopy\<close>, \<^verbatim>\<open>lflatten\<close>,
  \<^verbatim>\<open>_apply_common_context\<close> and \<^verbatim>\<open>_apply_default_match_all\<close>. Of \<^verbatim>\<open>self\<close> it reads
  \<^verbatim>\<open>_default_match_all\<close> and \<^verbatim>\<open>_common_context\<close> only.
\<close>

definition preprocess :: "Keymap \<Rightarrow> heap \<Rightarrow> item list \<Rightarrow> heap \<times> ref list" where
  "preprocess self h xs =
     (let (h1, ys) = deepcopy h xs;
          bs1 = lflatten h1 ys;
          (h2, bs2) = apply_common_context self h1 bs1;
          (h3, bs3) = apply_default_match_all self h2 bs2
      in (h3, bs3))"

text \<open>
  \<^verbatim>\<open>Keymap.__init__\<close>. The new keymap cannot be reached from \<^verbatim>\<open>bindings\<close>, so it is
  allocated once \<^verbatim>\<open>_preprocess\<close> has returned.
\<close>

definition Keymap_init :: "heap \<Rightarrow> item list \<Rightarrow> bool option \<Rightarrow> ref list \<Rightarrow> heap \<times> ref" where
  "Keymap_init h xs dma cc =
     (let self = \<lparr>default_match_all = dma, common_context = cc, bindings = []\<rparr>;
          (h1, bs) = preprocess self h xs
      in (h1\<lparr>h_keymaps := h_keymaps h1 @ [self\<lparr>bindings := bs\<rparr>]\<rparr>, length (h_keymaps h1)))"

text \<open>
  \<^verbatim>\<open>Keymap.extend\<close> has no \<^verbatim>\<open>return\<close> statement: the call evaluates to \<^verbatim>\<open>None\<close>.
  The second component is the returned reference, \<open>None\<close> for Python's \<^verbatim>\<open>None\<close>.
\<close>

definition Keymap_extend :: "heap \<Rightarrow> ref \<Rightarrow> item list \<Rightarrow> heap \<times> ref option" where
  "Keymap_extend h self xs =
     (let (h1, bs) = preprocess (h_keymaps h ! self) h xs;
          k = h_keymaps h1 ! self
      in (h1\<lparr>h_keymaps := (h_keymaps h1)[self := k\<lparr>bindings := bindings k @ bs\<rparr>]\<rparr>, None))"

definition Keymap_lshift :: "heap \<Rightarrow> ref \<Rightarrow> ref \<Rightarrow> heap \<times> ref option" where
  "Keymap_lshift h self b = (fst (Keymap_extend h self [PyList [BindingObj b]]), None)"

definition Keymap_iter :: "heap \<Rightarrow> ref \<Rightarrow> ref list" where
  "Keymap_iter h self = bindings (h_keymaps h ! self)"

definition Keymap_len :: "heap \<Rightarrow> ref \<Rightarrow> nat" where
  "Keymap_len h self = length (bindings (h_keymaps h ! self))"

text \<open>The value a condition has after default propagation, given the keymap's default.\<close>

definition or_default :: "bool option \<Rightarrow> bool option \<Rightarrow> bool option" where
  "or_default d m = (case m of None \<Rightarrow> d | Some v \<Rightarrow> Some v)"

text \<open>
  The condition that the one at address \<open>c\<close> was when preprocessing began, \<open>nc\<close> conditions
  being allocated then: itself when it existed already, else the one it is the clone of.
\<close>

definition origin :: "nat \<Rightarrow> ref \<Rightarrow> ref" where
  "origin nc c = (if c < nc then c else c - nc)"

subsection \<open>KeymapJSONEncoder\<close>

definition isnone :: "pyval \<Rightarrow> bool" where
  "isnone v \<longleftrightarrow> v = PNone"

fun isa_list_dict :: "pyval \<Rightarrow> bool" where
  "isa_list_dict (PList xs) = True"
| "isa_list_dict (PDict kvs) = True"
| "isa_list_dict v = False"

fun isa_dict :: "pyval \<Rightarrow> bool" where
  "isa_dict (PDict kvs) = True"
| "isa_dict v = False"

text \<open>Python's \<^verbatim>\<open>len\<close> raises \<^verbatim>\<open>TypeError\<close> on a value that has no length.\<close>

fun py_len :: "pyval \<Rightarrow> py_error + nat" where
  "py_len (PStr s) = Inr (length s)"
| "py_len (PList xs) = Inr (length xs)"
| "py_len (PTuple xs) = Inr (length xs)"
| "py_len (PDict kvs) = Inr (length kvs)"
| "py_len v = Inl TypeError"

definition isempty :: "pyval \<Rightarrow> py_error + bool" where
  "isempty obj = (case py_len obj of Inl e \<Rightarrow> Inl e | Inr n \<Rightarrow> Inr (n = 0))"

text \<open>
  \<^verbatim>\<open>all_fn(isa(list, dict), isempty)\<close> evaluates its functions from left to right and
  stops at the first that is false, so \<^verbatim>\<open>isempty\<close> is applied to lists and dicts only.
\<close>

definition all_fn_isa_isempty :: "pyval \<Rightarrow> bool" where
  "all_fn_isa_isempty v \<longleftrightarrow> isa_list_dict v \<and> isempty v = Inr True"

definition remove_values :: "('v \<Rightarrow> bool) \<Rightarrow> (string \<times> 'v) list \<Rightarrow> (string \<times> 'v) list" where
  "remove_values pred col = filter (\<lambda>(k, v). \<not> pred v) col"

definition walk_values :: "('v \<Rightarrow> 'v) \<Rightarrow> (string \<times> 'v) list \<Rightarrow> (string \<times> 'v) list" where
  "walk_values f col = map (\<lambda>(k, v). (k, f v)) col"

definition iffy :: "('v \<Rightarrow> bool) \<Rightarrow> ('v \<Rightarrow> 'v) \<Rightarrow> 'v \<Rightarrow> 'v" where
  "iffy pred action v = (if pred v then action v else v)"

text \<open>\<^verbatim>\<open>sort_dict\<close> is reached through \<^verbatim>\<open>iffy(isa(dict), sort_dict)\<close>, for dicts only.\<close>

fun sort_dict :: "pyval \<Rightarrow> pyval" where
  "sort_dict (PDict kvs) = PDict (sort_key fst kvs)"
| "sort_dict v = v"

text \<open>
  \<^verbatim>\<open>OrderedDict(pairs)\<close> stores the pairs one after the other; a key stored again keeps
  its place and takes the new value.
\<close>

fun odict_set :: "string \<Rightarrow> 'v \<Rightarrow> (string \<times> 'v) list \<Rightarrow> (string \<times> 'v) list" where
  "odict_set k v [] = [(k, v)]"
| "odict_set k v ((k', v') # d) = (if k' = k then (k, v) # d else (k', v') # odict_set k v d)"

definition OrderedDict :: "(string \<times> 'v) list \<Rightarrow> (string \<times> 'v) list" where
  "OrderedDict pairs = foldl (\<lambda>d (k, v). odict_set k v d) [] pairs"

text \<open>
  \<^verbatim>\<open>ordered_attrs\<close>, applied to the pairs \<^verbatim>\<open>(attr, getattr(obj, attr))\<close> that the first
  stage of the pipe builds from the list of attribute names.
\<close>

definition ordered_attrs :: "(string \<times> pyval) list \<Rightarrow> (string \<times> pyval) list" where
  "ordered_attrs pairs =
     OrderedDict (walk_values (iffy isa_dict sort_dict)
       (remove_values all_fn_isa_isempty (remove_values isnone pairs)))"

definition str_or_None :: "string option \<Rightarrow> pyval" where
  "str_or_None s = (case s of None \<Rightarrow> PNone | Some x \<Rightarrow> PStr x)"

definition bool_or_None :: "bool option \<Rightarrow> pyval" where
  "bool_or_None s = (case s of None \<Rightarrow> PNone | Some x \<Rightarrow> PBool x)"

definition Context_attrs ::
  "pyval \<Rightarrow> string option \<Rightarrow> pyval \<Rightarrow> bool option \<Rightarrow> (string \<times> pyval) list" where
  "Context_attrs k opr opd ma =
     [(''key'', k), (''operator'', str_or_None opr), (''operand'', opd),
      (''match_all'', bool_or_None ma)]"

definition Binding_attrs ::
  "string list \<Rightarrow> string option \<Rightarrow> pyval \<Rightarrow> pyval list \<Rightarrow> (string \<times> pyval) list" where
  "Binding_attrs ks cmd ar ctx =
     [(''keys'', PTuple (map PStr ks)), (''command'', str_or_None cmd), (''args'', ar),
      (''context'', PList ctx)]"

text \<open>\<^verbatim>\<open>KeymapJSONEncoder.default\<close>; its last branch is \<^verbatim>\<open>super().default(obj)\<close>.\<close>

fun KeymapJSONEncoder_default :: "pyval \<Rightarrow> py_error + (string \<times> pyval) list" where
  "KeymapJSONEncoder_default (PContext k opr opd ma) =
     Inr (ordered_attrs (Context_attrs k opr opd ma))"
| "KeymapJSONEncoder_default (PBinding ks cmd ar ctx) =
     Inr (ordered_attrs (Binding_attrs ks cmd ar ctx))"
| "KeymapJSONEncoder_default obj = Inl TypeError"

text \<open>
  The JSON document that \<^verbatim>\<open>json.dumps(obj, cls=KeymapJSONEncoder)\<close> writes, as a tree:
  an object is the sequence of its members in the order they are written. The encoder
  handles \<^verbatim>\<open>None\<close>, booleans, numbers, strings, lists, tuples and dicts by itself and
  replaces any other value by what \<^verbatim>\<open>default\<close> returns for it.
\<close>

datatype json =
    JNull
  | JBool bool
  | JNumber int
  | JString string
  | JArray "json list"
  | JObject "(string \<times> json) list"

function encode :: "pyval \<Rightarrow> json" where
  "encode PNone = JNull"
| "encode (PBool b) = JBool b"
| "encode (PInt i) = JNumber i"
| "encode (PStr s) = JString s"
| "encode (PList xs) = JArray (map encode xs)"
| "encode (PTuple xs) = JArray (map encode xs)"
| "encode (PDict kvs) = JObject (map (\<lambda>(k, v). (k, encode v)) kvs)"
| "encode (PContext k opr opd ma) = encode (PDict (ordered_attrs (Context_attrs k opr opd ma)))"
| "encode (PBinding ks cmd ar ctx) = encode (PDict (ordered_attrs (Binding_attrs ks cmd ar ctx)))"
  by pat_completeness auto

text \<open>
  Termination: every call is on a value of smaller weight, an instance of a class weighing
  more than the dict that \<^verbatim>\<open>default\<close> makes of it.
\<close>

fun weight :: "pyval \<Rightarrow> nat" where
  "weight (PList xs) = Suc (sum_list (map weight xs))"
| "weight (PTuple xs) = Suc (sum_list (map weight xs))"
| "weight (PDict kvs) = Suc (sum_list (map (\<lambda>(k, v). weight v) kvs))"
| "weight (PContext k opr opd ma) = 3 + weight k + weight opd"
| "weight (PBinding ks cmd ar ctx) = 6 + weight ar + sum_list (map weight ctx)"
| "weight v = 0"

definition weights :: "(string \<times> pyval) list \<Rightarrow> nat" where
  "weights kvs = sum_list (map (\<lambda>(k, v). weight v) kvs)"

lemma weights_insort: "weights (insort_key fst (k, v) xs) = weight v + weights xs"
  by (induction xs) (auto simp: weights_def)

lemma weights_sort: "weights (sort_key fst xs) = weights xs"
proof (induction xs)
  case Nil
  then show ?case by simp
next
  case (Cons p ps)
  obtain k v where p: "p = (k, v)" by (cases p)
  from Cons show ?case by (simp add: p weights_insort) (simp add: weights_def)
qed

lemma weight_sort_dict: "weight (sort_dict v) = weight v"
  using weights_sort by (cases v) (auto simp: weights_def)

lemma weights_odict_set: "weights (odict_set k v d) \<le> weight v + weights d"
  by (induction d) (auto simp: weights_def)

lemma weights_OrderedDict:
  "weights (foldl (\<lambda>d (k, v). odict_set k v d) acc ps) \<le> weights acc + weights ps"
proof (induction ps arbitrary: acc)
  case Nil
  then show ?case by (simp add: weights_def)
next
  case (Cons p ps)
  obtain k v where p: "p = (k, v)" by (cases p)
  have "weights (foldl (\<lambda>d (k, v). odict_set k v d) (odict_set k v acc) ps)
          \<le> weights (odict_set k v acc) + weights ps"
    by (rule Cons.IH)
  also have "\<dots> \<le> weight v + weights acc + weights ps"
    using weights_odict_set[of k v acc] by simp
  finally show ?case by (simp add: p weights_def)
qed

lemma weights_remove_values: "weights (remove_values P xs) \<le> weights xs"
  unfolding remove_values_def weights_def by (induction xs) auto

lemma weights_walk_values: "weights (walk_values (iffy isa_dict sort_dict) xs) = weights xs"
  unfolding walk_values_def iffy_def weights_def by (induction xs) (auto simp: weight_sort_dict)

lemma weights_ordered_attrs: "weights (ordered_attrs pairs) \<le> weights pairs"
proof -
  let ?kept = "remove_values all_fn_isa_isempty (remove_values isnone pairs)"
  have "weights (ordered_attrs pairs) \<le> weights (walk_values (iffy isa_dict sort_dict) ?kept)"
    unfolding ordered_attrs_def OrderedDict_def
    using weights_OrderedDict[of "[]" "walk_values (iffy isa_dict sort_dict) ?kept"]
    by (simp add: weights_def)
  also have "\<dots> = weights ?kept"
    by (rule weights_walk_values)
  also have "\<dots> \<le> weights (remove_values isnone pairs)"
    by (rule weights_remove_values)
  also have "\<dots> \<le> weights pairs"
    by (rule weights_remove_values)
  finally show ?thesis .
qed

lemma weight_member: "x \<in> set xs \<Longrightarrow> weight x \<le> sum_list (map weight xs)"
  by (induction xs) auto

lemma weight_value: "(k, v) \<in> set kvs \<Longrightarrow> weight v \<le> weights kvs"
  unfolding weights_def by (induction kvs) auto

termination encode
proof (relation "measure weight")
  show "wf (measure weight)" by simp
next
  fix xs :: "pyval list" and x
  assume "x \<in> set xs"
  then show "(x, PList xs) \<in> measure weight"
    using weight_member[of x xs] by simp
next
  fix xs :: "pyval list" and x
  assume "x \<in> set xs"
  then show "(x, PTuple xs) \<in> measure weight"
    using weight_member[of x xs] by simp
next
  fix kvs :: "(string \<times> pyval) list" and x xa y
  assume "x \<in> set kvs" and "(xa, y) = x"
  then show "(y, PDict kvs) \<in> measure weight"
    using weight_value[of xa y kvs] by (simp add: weights_def)
next
  fix k opr opd ma
  show "(PDict (ordered_attrs (Context_attrs k opr opd ma)), PContext k opr opd ma)
          \<in> measure weight"
    using weights_ordered_attrs[of "Context_attrs k opr opd ma"]
    by (simp add: weights_def Context_attrs_def str_or_None_def bool_or_None_def
             split: option.splits)
next
  fix ks cmd ar ctx
  have z: "sum_list (map (weight \<circ> PStr) ks) = 0"
    by (induction ks) auto
  show "(PDict (ordered_attrs (Binding_attrs ks cmd ar ctx)), PBinding ks cmd ar ctx)
          \<in> measure weight"
    using weights_ordered_attrs[of "Binding_attrs ks cmd ar ctx"]
    by (simp add: z weights_def Binding_attrs_def str_or_None_def split: option.splits)
qed

text \<open>An object as the encoder reads it from the store.\<close>

definition Context_value :: "Context \<Rightarrow> pyval" where
  "Context_value c = PContext (key c) (operator c) (operand c) (match_all c)"

definition Binding_value :: "heap \<Rightarrow> ref \<Rightarrow> pyval" where
  "Binding_value h r =
     (let b = h_bindings h ! r
      in PBinding (keys b) (command b) (args b)
           (map (\<lambda>c. Context_value (h_contexts h ! c)) (context' b)))"

text \<open>\<^verbatim>\<open>jsonify\<close> is a function of the module; \<^verbatim>\<open>Keymap.to_json\<close> calls it.\<close>

definition jsonify :: "pyval \<Rightarrow> json" where
  "jsonify obj = encode obj"

definition Keymap_to_json :: "heap \<Rightarrow> ref \<Rightarrow> json" where
  "Keymap_to_json h self = jsonify (PList (map (Binding_value h) (bindings (h_keymaps h ! self))))"

text \<open>
  \<^verbatim>\<open>Keymap.__str__\<close> evaluates \<^verbatim>\<open>self.jsonify()\<close>: it looks the name up on the
  keymap and calls what it finds without arguments. The lookup finds the names that the
  module defines, listed below (the attributes that \<^verbatim>\<open>__init__\<close> assigns and those of
  the class, which has no \<^verbatim>\<open>__getattr__\<close>), and the names that the interpreter
  provides, all beginning with two underscores and given by the parameter \<open>inherited\<close>
  as for a condition. What the call of the attribute found returns is the parameter
  \<open>call\<close>.
\<close>

definition Keymap_attributes :: "string list" where
  "Keymap_attributes =
     [''_default_match_all'', ''_common_context'', ''_bindings'',
      ''__init__'', ''to_json'', ''dump'', ''extend'', ''_preprocess'',
      ''_apply_common_context'', ''_apply_default_match_all'',
      ''__iter__'', ''__lshift__'', ''__len__'', ''__str__'']"

definition Keymap_getattr :: "(string \<Rightarrow> bool) \<Rightarrow> string \<Rightarrow> py_error + string" where
  "Keymap_getattr inherited name =
     (if name \<in> set Keymap_attributes \<or> (is_dunder name \<and> inherited name) then Inr name
      else Inl AttributeError)"

definition Keymap_str ::
  "(string \<Rightarrow> bool) \<Rightarrow> (string \<Rightarrow> heap \<Rightarrow> ref \<Rightarrow> py_error + 'r) \<Rightarrow> heap \<Rightarrow> ref \<Rightarrow>
     py_error + 'r" where
  "Keymap_str inherited call h self =
     (case Keymap_getattr inherited ''jsonify'' of
        Inl e \<Rightarrow> Inl e
      | Inr name \<Rightarrow> call name h self)"

subsection \<open>Example stores\<close>

text \<open>
  A store with the binding \<^verbatim>\<open>b = Binding('x')\<close>, the condition \<^verbatim>\<open>b.when('foo')\<close> at
  address 0 and the standalone condition \<^verbatim>\<open>Context('foo')\<close> at address 1.
\<close>

definition heap_two_conditions :: heap where
  "heap_two_conditions =
     \<lparr>h_contexts =
        [\<lparr>key = PStr ''foo'', operator = None, operand = PNone, match_all = None, parent = Some 0\<rparr>,
         \<lparr>key = PStr ''foo'', operator = None, operand = PNone, match_all = None, parent = None\<rparr>],
      h_bindings = [\<lparr>keys = [''x''], command = None, args = PList [], context' = [0]\<rparr>],
      h_keymaps = []\<rparr>"

text \<open>
  The store after
  \<^verbatim>\<open>c = context('selector').equal('text.asciidoc')\<close>,
  \<^verbatim>\<open>b0 = bind('x').to('fire').when('foo').any().true().also('bar').true()\<close>,
  \<^verbatim>\<open>b1 = bind('y')\<close> and \<^verbatim>\<open>k = Keymap(b1)\<close>. The condition \<^verbatim>\<open>c\<close> is at
  address 0 and the two conditions of \<^verbatim>\<open>b0\<close> are at 1 and 2; \<^verbatim>\<open>b0\<close> and \<^verbatim>\<open>b1\<close>
  are at 0 and 1. The deep copy made by \<^verbatim>\<open>Keymap(b1)\<close> has put the clones at the
  addresses from 3 (conditions) and 2 (bindings) on; the binding that \<^verbatim>\<open>k\<close> stores is
  the clone of \<^verbatim>\<open>b1\<close>, at 3.
\<close>

definition heap_example :: heap where
  "heap_example =
     \<lparr>h_contexts =
        [\<lparr>key = PStr ''selector'', operator = Some ''equal'', operand = PStr ''text.asciidoc'',
          match_all = None, parent = None\<rparr>,
         \<lparr>key = PStr ''foo'', operator = Some ''equal'', operand = PBool True,
          match_all = Some False, parent = Some 0\<rparr>,
         \<lparr>key = PStr ''bar'', operator = Some ''equal'', operand = PBool True,
          match_all = None, parent = Some 0\<rparr>,
         \<lparr>key = PStr ''selector'', operator = Some ''equal'', operand = PStr ''text.asciidoc'',
          match_all = None, parent = None\<rparr>,
         \<lparr>key = PStr ''foo'', operator = Some ''equal'', operand = PBool True,
          match_all = Some False, parent = Some 2\<rparr>,
         \<lparr>key = PStr ''bar'', operator = Some ''equal'', operand = PBool True,
          match_all = None, parent = Some 2\<rparr>],
      h_bindings =
        [\<lparr>keys = [''x''], command = Some ''fire'', args = PDict [], context' = [1, 2]\<rparr>,
         \<lparr>keys = [''y''], command = None, args = PList [], context' = []\<rparr>,
         \<lparr>keys = [''x''], command = Some ''fire'', args = PDict [], context' = [4, 5]\<rparr>,
         \<lparr>keys = [''y''], command = None, args = PList [], context' = []\<rparr>],
      h_keymaps = [\<lparr>default_match_all = None, common_context = [], bindings = [3]\<rparr>]\<rparr>"

text \<open>A keymap under construction with \<^verbatim>\<open>common_context=[c], default_match_all=True\<close>.\<close>

definition keymap_example :: Keymap where
  "keymap_example = \<lparr>default_match_all = Some True, common_context = [0], bindings = []\<rparr>"

text \<open>
  The store after that keymap has preprocessed \<^verbatim>\<open>(b0, [b1])\<close>: the clones are at the
  addresses from 6 (conditions), 4 (bindings) and 1 (keymaps) on.
\<close>

definition heap_example_after :: heap where
  "heap_example_after =
     \<lparr>h_contexts =
        [\<lparr>key = PStr ''selector'', operator = Some ''equal'', operand = PStr ''text.asciidoc'',
          match_all = Some True, parent = None\<rparr>,
         \<lparr>key = PStr ''foo'', operator = Some ''equal'', operand = PBool True,
          match_all = Some False, parent = Some 0\<rparr>,
         \<lparr>key = PStr ''bar'', operator = Some ''equal'', operand = PBool True,
          match_all = None, parent = Some 0\<rparr>,
         \<lparr>key = PStr ''selector'', operator = Some ''equal'', operand = PStr ''text.asciidoc'',
          match_all = None, parent = None\<rparr>,
         \<lparr>key = PStr ''foo'', operator = Some ''equal'', operand = PBool True,
          match_all = Some False, parent = Some 2\<rparr>,
         \<lparr>key = PStr ''bar'', operator = Some ''equal'', operand = PBool True,
          match_all = None, parent = Some 2\<rparr>,
         \<lparr>key = PStr ''selector'', operator = Some ''equal'', operand = PStr ''text.asciidoc'',
          match_all = None, parent = None\<rparr>,
         \<lparr>key = PStr ''foo'', operator = Some ''equal'', operand = PBool True,
          match_all = Some False, parent = Some 4\<rparr>,
         \<lparr>key = PStr ''bar'', operator = Some ''equal'', operand = PBool True,
          match_all = Some True, parent = Some 4\<rparr>,
         \<lparr>key = PStr ''selector'', operator = Some ''equal'', operand = PStr ''text.asciidoc'',
          match_all = None, parent = None\<rparr>,
         \<lparr>key = PStr ''foo'', operator = Some ''equal'', operand = PBool True,
          match_all = Some False, parent = Some 6\<rparr>,
         \<lparr>key = PStr ''bar'', operator = Some ''equal'', operand = PBool True,
          match_all = None, parent = Some 6\<rparr>],
      h_bindings =
        [\<lparr>keys = [''x''], command = Some ''fire'', args = PDict [], context' = [1, 2]\<rparr>,
         \<lparr>keys = [''y''], command = None, args = PList [], context' = []\<rparr>,
         \<lparr>keys = [''x''], command = Some ''fire'', args = PDict [], context' = [4, 5]\<rparr>,
         \<lparr>keys = [''y''], command = None, args = PList [], context' = []\<rparr>,
         \<lparr>keys = [''x''], command = Some ''fire'', args = PDict [], context' = [7, 8, 0]\<rparr>,
         \<lparr>keys = [''y''], command = None, args = PList [], context' = [0]\<rparr>,
         \<lparr>keys = [''x''], command = Some ''fire'', args = PDict [], context' = [10, 11]\<rparr>,
         \<lparr>keys = [''y''], command = None, args = PList [], context' = []\<rparr>],
      h_keymaps =
        [\<lparr>default_match_all = None, common_context = [], bindings = [3]\<rparr>,
         \<lparr>default_match_all = None, common_context = [], bindings = [7]\<rparr>]\<rparr>"

text \<open>
  The store after \<^verbatim>\<open>c = context('selector').equal('text.asciidoc')\<close> and
  \<^verbatim>\<open>b = bind('x')\<close>.
\<close>

definition heap_shared :: heap where
  "heap_shared =
     \<lparr>h_contexts =
        [\<lparr>key = PStr ''selector'', operator = Some ''equal'', operand = PStr ''text.asciidoc'',
          match_all = None, parent = None\<rparr>],
      h_bindings = [\<lparr>keys = [''x''], command = None, args = PList [], context' = []\<rparr>],
      h_keymaps = []\<rparr>"

text \<open>The argument \<^verbatim>\<open>(b0, (k, [b1, []]))\<close> for the bindings and the keymap above.\<close>

definition nested_example :: "item list" where
  "nested_example = [BindingObj 0, PyTuple [KeymapObj 0, PyList [BindingObj 1, PyList []]]]"

section \<open>Properties\<close>

subsection \<open>The example stores are what the module's calls build\<close>

lemma heap_two_conditions_built:
  "(case Binding_init empty_heap [''x''] of
      Inl e \<Rightarrow> False
    | Inr (h1, b) \<Rightarrow>
        (let (h2, c0) = Binding_when h1 b (PStr ''foo'');
             (h3, c1) = Context_init h2 (PStr ''foo'') None
         in h3 = heap_two_conditions \<and> b = 0 \<and> c0 = 0 \<and> c1 = 1))"
  by code_simp

lemma heap_shared_built:
  "(let (h1, c) = Context_init empty_heap (PStr ''selector'') None
    in case Context_compare inherited inherited_call h1 c ''equal''
              (PStr ''text.asciidoc'') of
         Inl e \<Rightarrow> False
       | Inr (h2, r) \<Rightarrow>
           (case Binding_init h2 [''x''] of
              Inl e \<Rightarrow> False
            | Inr (h3, b) \<Rightarrow> h3 = heap_shared \<and> r = ContextRef c \<and> c = 0 \<and> b = 0))"
  by code_simp

lemma heap_example_built:
  "(let (h1, c) = Context_init empty_heap (PStr ''selector'') None
    in case Context_compare inherited inherited_call h1 c ''equal''
              (PStr ''text.asciidoc'') of
         Inl e \<Rightarrow> False
       | Inr (h2, r) \<Rightarrow>
           (case Binding_init h2 [''x''] of
              Inl e \<Rightarrow> False
            | Inr (h3, b0) \<Rightarrow>
                (let (h4, r4) = Binding_to h3 b0 ''fire'' [];
                     (h5, c1) = Binding_when h4 b0 (PStr ''foo'');
                     (h6, r6) = Context_any h5 c1;
                     (h7, r7) = Context_true h6 c1;
                     (h8, c2) = Binding_when h7 b0 (PStr ''bar'');
                     (h9, r9) = Context_true h8 c2
                 in case Binding_init h9 [''y''] of
                      Inl e \<Rightarrow> False
                    | Inr (h10, b1) \<Rightarrow>
                        Keymap_init h10 [BindingObj b1] None [] = (heap_example, 0) \<and>
                        c = 0 \<and> b0 = 0 \<and> c1 = 1 \<and> c2 = 2 \<and> b1 = 1 \<and>
                        r7 = BindingRef b0 \<and> r9 = BindingRef b0)))"
  by code_simp

subsection \<open>Construction of a binding\<close>

text \<open>
  C5, as the code has it: constructing a \<^verbatim>\<open>Binding\<close> succeeds for every tuple of keys,
  the empty one included; the new object holds exactly the keys given, no command, the
  empty list as \<^verbatim>\<open>args\<close> and an empty \<^verbatim>\<open>context\<close>. The module defines no
  \<^verbatim>\<open>InvalidBinding\<close> and checks the number of keys nowhere.
\<close>

theorem Binding_init_any_keys:
  "\<exists>h' r. Binding_init h ks = Inr (h', r) \<and>
          length (h_bindings h') = Suc (length (h_bindings h)) \<and>
          h_bindings h' ! r = \<lparr>keys = ks, command = None, args = PList [], context' = []\<rparr>"
  by (simp add: Binding_init_def)

text \<open>\<^verbatim>\<open>Binding()\<close>, with no key at all, returns a binding whose \<^verbatim>\<open>keys\<close> is the empty tuple.\<close>

theorem Binding_init_no_keys:
  "Binding_init empty_heap [] =
     Inr (\<lparr>h_contexts = [],
           h_bindings = [\<lparr>keys = [], command = None, args = PList [], context' = []\<rparr>],
           h_keymaps = []\<rparr>, 0)"
  by (simp add: Binding_init_def empty_heap_def)

subsection \<open>Operator methods of a condition\<close>

lemma Context_compare_class_attribute:
  "name \<in> set Context_attributes \<Longrightarrow>
     Context_compare inherited inherited_call h self name opd =
       Context_call_attribute h self name opd"
  by (simp add: Context_compare_def)

lemma operators_not_attributes:
  "name \<in> set OPERATORS \<Longrightarrow> name \<notin> set Context_attributes \<and> \<not> is_dunder name"
  by (auto simp: OPERATORS_def Context_attributes_def is_dunder_def)

text \<open>
  C6, as the code has it. A comparison \<^verbatim>\<open>ctx.name(operand)\<close> fails, with the
  \<^verbatim>\<open>AttributeError\<close> that \<^verbatim>\<open>__getattr__\<close> raises (the unsupported operator of the
  specification), under every name that is none of the six operator names, none of the
  names that the module defines on a condition (\<^verbatim>\<open>key\<close>, \<^verbatim>\<open>operator\<close>, \<^verbatim>\<open>operand\<close>,
  \<^verbatim>\<open>match_all\<close>, \<^verbatim>\<open>_parent\<close>, \<^verbatim>\<open>_OPERATORS\<close>, \<^verbatim>\<open>__init__\<close>, \<^verbatim>\<open>all\<close>, \<^verbatim>\<open>any\<close>,
  \<^verbatim>\<open>true\<close>, \<^verbatim>\<open>false\<close>, \<^verbatim>\<open>_operator\<close>, \<^verbatim>\<open>__getattr__\<close>, \<^verbatim>\<open>__str__\<close>) and none
  of the names that the interpreter provides. Under each of the six names it succeeds,
  stores the name as \<^verbatim>\<open>operator\<close> and the argument as \<^verbatim>\<open>operand\<close>, and returns the
  owning binding when the condition has one, else the condition itself.
\<close>

theorem Context_compare_operators:
  "(name \<notin> {''equal'', ''not_equal'', ''regex_match'', ''not_regex_match'',
             ''regex_contains'', ''not_regex_contains''} \<and>
    name \<notin> set Context_attributes \<and> \<not> (is_dunder name \<and> inherited name)
      \<longrightarrow> Context_compare inherited inherited_call h self name opd = Inl AttributeError) \<and>
   (name \<in> {''equal'', ''not_equal'', ''regex_match'', ''not_regex_match'',
             ''regex_contains'', ''not_regex_contains''} \<and> self < length (h_contexts h)
      \<longrightarrow> (\<exists>h'. Context_compare inherited inherited_call h self name opd =
                  Inr (h', case parent (h_contexts h ! self) of
                             Some p \<Rightarrow> BindingRef p | None \<Rightarrow> ContextRef self) \<and>
                operator (h_contexts h' ! self) = Some name \<and>
                operand (h_contexts h' ! self) = opd))"
proof (intro conjI impI)
  assume "name \<notin> {''equal'', ''not_equal'', ''regex_match'', ''not_regex_match'',
             ''regex_contains'', ''not_regex_contains''} \<and>
    name \<notin> set Context_attributes \<and> \<not> (is_dunder name \<and> inherited name)"
  then show "Context_compare inherited inherited_call h self name opd = Inl AttributeError"
    by (auto simp: Context_compare_def Context_getattr_def OPERATORS_def)
next
  assume a: "name \<in> {''equal'', ''not_equal'', ''regex_match'', ''not_regex_match'',
             ''regex_contains'', ''not_regex_contains''} \<and> self < length (h_contexts h)"
  then have op: "name \<in> set OPERATORS"
    by (simp add: OPERATORS_def)
  note na = operators_not_attributes[OF op]
  from a op na show "\<exists>h'. Context_compare inherited inherited_call h self name opd =
                  Inr (h', case parent (h_contexts h ! self) of
                             Some p \<Rightarrow> BindingRef p | None \<Rightarrow> ContextRef self) \<and>
                operator (h_contexts h' ! self) = Some name \<and>
                operand (h_contexts h' ! self) = opd"
    by (simp add: Context_compare_def Context_getattr_def Context_operator_def Let_def)
qed

theorem Context_compare_operators_witness:
  "Context_compare nothing_inherited no_inherited_call heap_two_conditions 0 ''matches''
     (PInt 42) = Inl AttributeError \<and>
   (\<exists>h'. Context_compare nothing_inherited no_inherited_call heap_two_conditions 0
            ''regex_match'' (PInt 42) = Inr (h', BindingRef 0) \<and>
         operator (h_contexts h' ! 0) = Some ''regex_match'' \<and>
         operand (h_contexts h' ! 0) = PInt 42) \<and>
   (\<exists>h'. Context_compare nothing_inherited no_inherited_call heap_two_conditions 1
            ''not_equal'' (PStr ''a'') = Inr (h', ContextRef 1) \<and>
         operator (h_contexts h' ! 1) = Some ''not_equal'' \<and>
         operand (h_contexts h' ! 1) = PStr ''a'')"
  using Context_compare_operators[of "''matches''" nothing_inherited no_inherited_call
          heap_two_conditions 0 "PInt 42"]
        Context_compare_operators[of "''regex_match''" nothing_inherited no_inherited_call
          heap_two_conditions 0 "PInt 42"]
        Context_compare_operators[of "''not_equal''" nothing_inherited no_inherited_call
          heap_two_conditions 1 "PStr ''a''"]
  by (simp add: heap_two_conditions_def Context_attributes_def is_dunder_def)

text \<open>
  Three names outside the six, on the condition \<^verbatim>\<open>b.when('foo')\<close> at address 0:
  \<^verbatim>\<open>ctx.true(42)\<close> raises \<^verbatim>\<open>TypeError\<close>, since \<^verbatim>\<open>true\<close> takes no argument;
  \<^verbatim>\<open>ctx.__getattr__('equal')\<close> succeeds, returns the callable and sets nothing;
  \<^verbatim>\<open>ctx.__init__('k')\<close> succeeds, returns \<^verbatim>\<open>None\<close> and leaves a condition with the
  key \<^verbatim>\<open>'k'\<close> and no parent.
\<close>

theorem Context_compare_defined_names:
  "Context_compare nothing_inherited no_inherited_call heap_two_conditions 0 ''true''
     (PInt 42) = Inl TypeError \<and>
   Context_compare nothing_inherited no_inherited_call heap_two_conditions 0 ''__getattr__''
     (PStr ''equal'') = Inr (heap_two_conditions, OperatorPartial 0 ''equal'') \<and>
   Context_compare nothing_inherited no_inherited_call heap_two_conditions 0 ''__init__''
     (PStr ''k'') =
     Inr (\<lparr>h_contexts =
            [\<lparr>key = PStr ''k'', operator = None, operand = PNone, match_all = None,
              parent = None\<rparr>,
             \<lparr>key = PStr ''foo'', operator = None, operand = PNone, match_all = None,
              parent = None\<rparr>],
           h_bindings = [\<lparr>keys = [''x''], command = None, args = PList [], context' = [0]\<rparr>],
           h_keymaps = []\<rparr>, NoneValue)"
  by (simp add: Context_compare_def Context_attributes_def Context_call_attribute_def
        Context_getattr_def OPERATORS_def heap_two_conditions_def)

subsection \<open>Equality of conditions\<close>

text \<open>
  C8 at \<^verbatim>\<open>Context('foo') == Context('foo')\<close>: the two conditions agree on all four public
  attributes, and the comparison the class inherits is false for them, since they are two
  objects. The test \<^verbatim>\<open>returns_true_when_public_attrs_are_equal\<close> of the repository
  expects it to be true.
\<close>

theorem Context_eq_is_identity:
  "(let (h1, a) = Context_init empty_heap (PStr ''foo'') None;
        (h2, b) = Context_init h1 (PStr ''foo'') None
    in spec_public_attrs_equal (h_contexts h2 ! a) (h_contexts h2 ! b) \<and> \<not> Context_eq a b)"
  by (simp add: Context_init_def empty_heap_def spec_public_attrs_equal_def Context_eq_def)

subsection \<open>What extend returns, and string conversion\<close>

text \<open>
  C7, first half, on the code: whatever the keymap and the bindings, \<^verbatim>\<open>extend\<close> returns
  \<^verbatim>\<open>None\<close>, not the keymap. The test \<^verbatim>\<open>returns_self\<close> of the repository expects the
  keymap.
\<close>

theorem Keymap_extend_returns_None:
  "snd (Keymap_extend h self xs) = None"
  by (simp add: Keymap_extend_def Let_def split: prod.splits)

text \<open>
  C9: converting a keymap to a string never yields JSON; the lookup of \<^verbatim>\<open>jsonify\<close> on
  the keymap raises \<^verbatim>\<open>AttributeError\<close>, whatever the names that the interpreter
  provides.
\<close>

theorem Keymap_str_raises:
  "Keymap_str inherited call h self = Inl AttributeError"
  by (simp add: Keymap_str_def Keymap_getattr_def Keymap_attributes_def is_dunder_def)

subsection \<open>Serialisation\<close>

lemma odict_set_fresh: "k \<notin> fst ` set d \<Longrightarrow> odict_set k v d = d @ [(k, v)]"
  by (induction d) auto

lemma OrderedDict_foldl_distinct:
  "distinct (map fst (acc @ ps)) \<Longrightarrow> foldl (\<lambda>d (k, v). odict_set k v d) acc ps = acc @ ps"
proof (induction ps arbitrary: acc)
  case Nil
  then show ?case by simp
next
  case (Cons p ps)
  obtain k v where p: "p = (k, v)" by (cases p)
  from Cons.prems have fresh: "k \<notin> fst ` set acc"
    by (auto simp: p)
  from Cons.prems have "distinct (map fst ((acc @ [(k, v)]) @ ps))"
    by (simp add: p)
  then have "foldl (\<lambda>d (k, v). odict_set k v d) (acc @ [(k, v)]) ps = (acc @ [(k, v)]) @ ps"
    by (rule Cons.IH)
  then show ?case
    by (simp add: p odict_set_fresh[OF fresh])
qed

lemma OrderedDict_distinct: "distinct (map fst ps) \<Longrightarrow> OrderedDict ps = ps"
  unfolding OrderedDict_def using OrderedDict_foldl_distinct[of "[]" ps] by simp

lemma all_fn_isa_isempty_iff: "all_fn_isa_isempty v \<longleftrightarrow> v = PList [] \<or> v = PDict []"
  by (cases v) (auto simp: all_fn_isa_isempty_def isempty_def)

lemma map_fst_walk_values: "map fst (walk_values f xs) = map fst xs"
  unfolding walk_values_def by (induction xs) auto

lemma remove_values_twice:
  "remove_values all_fn_isa_isempty (remove_values isnone ps) =
     filter (\<lambda>(a, v). v \<noteq> PNone \<and> v \<noteq> PList [] \<and> v \<noteq> PDict []) ps"
  unfolding remove_values_def by (induction ps) (auto simp: all_fn_isa_isempty_iff isnone_def)

lemma ordered_attrs_distinct:
  assumes "distinct (map fst ps)"
  shows "ordered_attrs ps =
           walk_values (iffy isa_dict sort_dict)
             (filter (\<lambda>(a, v). v \<noteq> PNone \<and> v \<noteq> PList [] \<and> v \<noteq> PDict []) ps)"
proof -
  let ?kept = "filter (\<lambda>(a, v). v \<noteq> PNone \<and> v \<noteq> PList [] \<and> v \<noteq> PDict []) ps"
  have "distinct (map fst ?kept)"
    using assms by (rule distinct_map_filter)
  then have "distinct (map fst (walk_values (iffy isa_dict sort_dict) ?kept))"
    by (simp add: map_fst_walk_values)
  then show ?thesis
    unfolding ordered_attrs_def remove_values_twice by (rule OrderedDict_distinct)
qed

lemma encode_walk_values:
  "map (\<lambda>(k, v). (k, encode v)) (walk_values f ps) = map (\<lambda>(a, v). (a, encode (f v))) ps"
  unfolding walk_values_def by (induction ps) auto

lemma encode_uses_default:
  "KeymapJSONEncoder_default obj = Inr d \<Longrightarrow> encode obj = encode (PDict d)"
  by (cases obj) auto

text \<open>
  C3, as the code has it: the JSON object written for a condition or a binding has one
  member for each attribute whose value is neither \<^verbatim>\<open>None\<close>, nor an empty list, nor an
  empty dict, in the fixed order of the class (\<^verbatim>\<open>key, operator, operand, match_all\<close> and
  \<^verbatim>\<open>keys, command, args, context\<close>); the member's value is the attribute's value, a dict
  having its keys sorted. No other attribute is left out: an empty tuple is written.
\<close>

theorem encode_omits_None_and_empty:
  "encode (PContext k opr opd ma) =
     JObject (map (\<lambda>(a, v). (a, encode (iffy isa_dict sort_dict v)))
       (filter (\<lambda>(a, v). v \<noteq> PNone \<and> v \<noteq> PList [] \<and> v \<noteq> PDict [])
          [(''key'', k), (''operator'', str_or_None opr), (''operand'', opd),
           (''match_all'', bool_or_None ma)])) \<and>
   encode (PBinding ks cmd ar ctx) =
     JObject (map (\<lambda>(a, v). (a, encode (iffy isa_dict sort_dict v)))
       (filter (\<lambda>(a, v). v \<noteq> PNone \<and> v \<noteq> PList [] \<and> v \<noteq> PDict [])
          [(''keys'', PTuple (map PStr ks)), (''command'', str_or_None cmd), (''args'', ar),
           (''context'', PList ctx)]))"
proof -
  have c: "distinct (map fst (Context_attrs k opr opd ma))"
    by (simp add: Context_attrs_def)
  have b: "distinct (map fst (Binding_attrs ks cmd ar ctx))"
    by (simp add: Binding_attrs_def)
  have "encode (PContext k opr opd ma) =
     JObject (map (\<lambda>(a, v). (a, encode (iffy isa_dict sort_dict v)))
       (filter (\<lambda>(a, v). v \<noteq> PNone \<and> v \<noteq> PList [] \<and> v \<noteq> PDict [])
          (Context_attrs k opr opd ma)))"
    by (simp only: encode.simps ordered_attrs_distinct[OF c] encode_walk_values)
  moreover have "encode (PBinding ks cmd ar ctx) =
     JObject (map (\<lambda>(a, v). (a, encode (iffy isa_dict sort_dict v)))
       (filter (\<lambda>(a, v). v \<noteq> PNone \<and> v \<noteq> PList [] \<and> v \<noteq> PDict [])
          (Binding_attrs ks cmd ar ctx)))"
    by (simp only: encode.simps ordered_attrs_distinct[OF b] encode_walk_values)
  ultimately show ?thesis
    unfolding Context_attrs_def Binding_attrs_def by (rule conjI)
qed

text \<open>
  The binding \<^verbatim>\<open>Binding()\<close> holds the empty tuple as \<^verbatim>\<open>keys\<close>, an empty sequence, and
  is written as \<^verbatim>\<open>{"keys": []}\<close>.
\<close>

theorem encode_empty_keys_tuple:
  "encode (PBinding [] None (PList []) []) = JObject [(''keys'', JArray [])]"
  by (simp add: ordered_attrs_def Binding_attrs_def remove_values_def walk_values_def iffy_def
        OrderedDict_def isnone_def all_fn_isa_isempty_def isempty_def str_or_None_def)

text \<open>
  C10: a binding constructed with one or more keys, on which \<^verbatim>\<open>to\<close> was never called
  and to which no condition was added, is serialised as a JSON object with the single
  member \<^verbatim>\<open>keys\<close>; \<^verbatim>\<open>command\<close>, \<^verbatim>\<open>args\<close> and \<^verbatim>\<open>context\<close> are left out.
\<close>

theorem fresh_Binding_json:
  assumes "ks \<noteq> []" and "Binding_init h ks = Inr (h', r)"
  shows "jsonify (Binding_value h' r) = JObject [(''keys'', JArray (map JString ks))]"
proof -
  from assms(2) have "Binding_value h' r = PBinding ks None (PList []) []"
    by (auto simp: Binding_init_def Binding_value_def Let_def)
  then show ?thesis
    by (simp add: jsonify_def ordered_attrs_def Binding_attrs_def remove_values_def
          walk_values_def iffy_def OrderedDict_def isnone_def all_fn_isa_isempty_def
          isempty_def str_or_None_def comp_def)
qed

theorem fresh_Binding_json_witness:
  "[''x'', ''y''] \<noteq> [] \<and>
   Binding_init empty_heap [''x'', ''y''] =
     Inr (\<lparr>h_contexts = [],
           h_bindings =
             [\<lparr>keys = [''x'', ''y''], command = None, args = PList [], context' = []\<rparr>],
           h_keymaps = []\<rparr>, 0) \<and>
   jsonify (Binding_value
       \<lparr>h_contexts = [],
        h_bindings = [\<lparr>keys = [''x'', ''y''], command = None, args = PList [], context' = []\<rparr>],
        h_keymaps = []\<rparr> 0) = JObject [(''keys'', JArray [JString ''x'', JString ''y''])]"
proof -
  have i: "Binding_init empty_heap [''x'', ''y''] =
     Inr (\<lparr>h_contexts = [],
           h_bindings =
             [\<lparr>keys = [''x'', ''y''], command = None, args = PList [], context' = []\<rparr>],
           h_keymaps = []\<rparr>, 0)"
    by (simp add: Binding_init_def empty_heap_def)
  have n: "[''x'', ''y''] \<noteq> ([] :: string list)"
    by simp
  show ?thesis
    using fresh_Binding_json[OF n i] i by simp
qed

subsection \<open>Preprocessing: the stages one by one\<close>

lemma clone_heap_lengths:
  "length (h_contexts (clone_heap h)) = 2 * length (h_contexts h)"
  "length (h_bindings (clone_heap h)) = 2 * length (h_bindings h)"
  "length (h_keymaps (clone_heap h)) = 2 * length (h_keymaps h)"
  by (simp_all add: clone_heap_def)

lemma clone_heap_old:
  "c < length (h_contexts h) \<Longrightarrow> h_contexts (clone_heap h) ! c = h_contexts h ! c"
  "b < length (h_bindings h) \<Longrightarrow> h_bindings (clone_heap h) ! b = h_bindings h ! b"
  "k < length (h_keymaps h) \<Longrightarrow> h_keymaps (clone_heap h) ! k = h_keymaps h ! k"
  by (simp_all add: clone_heap_def nth_append)

lemma clone_heap_new:
  "c < length (h_contexts h) \<Longrightarrow>
     h_contexts (clone_heap h) ! (c + length (h_contexts h)) =
       copy_Context (length (h_bindings h)) (h_contexts h ! c)"
  "b < length (h_bindings h) \<Longrightarrow>
     h_bindings (clone_heap h) ! (b + length (h_bindings h)) =
       copy_Binding (length (h_contexts h)) (h_bindings h ! b)"
  "k < length (h_keymaps h) \<Longrightarrow>
     h_keymaps (clone_heap h) ! (k + length (h_keymaps h)) =
       copy_Keymap (length (h_contexts h)) (length (h_bindings h)) (h_keymaps h ! k)"
  by (simp_all add: clone_heap_def nth_append)

lemma flatten_copy_item:
  "wf_item h x \<Longrightarrow>
     flatten (clone_heap h) (copy_item (length (h_bindings h)) (length (h_keymaps h)) x) =
       map (\<lambda>r. r + length (h_bindings h)) (flatten h x)"
proof (induction h x rule: flatten.induct)
  case (1 h r)
  then show ?case by simp
next
  case (2 h k)
  then show ?case by (simp add: clone_heap_new copy_Keymap_def)
next
  case (3 h xs)
  then have "\<forall>x \<in> set xs. flatten (clone_heap h)
          (copy_item (length (h_bindings h)) (length (h_keymaps h)) x) =
       map (\<lambda>r. r + length (h_bindings h)) (flatten h x)"
    by (simp add: list_all_iff)
  then show ?case
    by (simp add: map_concat comp_def cong: map_cong)
next
  case (4 h xs)
  then have "\<forall>x \<in> set xs. flatten (clone_heap h)
          (copy_item (length (h_bindings h)) (length (h_keymaps h)) x) =
       map (\<lambda>r. r + length (h_bindings h)) (flatten h x)"
    by (simp add: list_all_iff)
  then show ?case
    by (simp add: map_concat comp_def cong: map_cong)
qed

lemma lflatten_deepcopy:
  assumes "list_all (wf_item h) xs"
  shows "lflatten (fst (deepcopy h xs)) (snd (deepcopy h xs)) =
           map (\<lambda>r. r + length (h_bindings h)) (lflatten h xs)"
proof -
  from assms have "\<forall>x \<in> set xs. flatten (clone_heap h)
          (copy_item (length (h_bindings h)) (length (h_keymaps h)) x) =
       map (\<lambda>r. r + length (h_bindings h)) (flatten h x)"
    by (simp add: list_all_iff flatten_copy_item)
  then show ?thesis
    by (simp add: lflatten_def deepcopy_def map_concat comp_def cong: map_cong)
qed

lemma flatten_in_range:
  "wf_heap h \<Longrightarrow> wf_item h x \<Longrightarrow> r \<in> set (flatten h x) \<Longrightarrow> r < length (h_bindings h)"
proof (induction h x rule: flatten.induct)
  case (1 h r')
  then show ?case by simp
next
  case (2 h k)
  then show ?case by (auto simp: wf_heap_def dest: nth_mem)
next
  case (3 h xs)
  then show ?case by (auto simp: list_all_iff)
next
  case (4 h xs)
  then show ?case by (auto simp: list_all_iff)
qed

lemma lflatten_in_range:
  "wf_heap h \<Longrightarrow> list_all (wf_item h) xs \<Longrightarrow> r \<in> set (lflatten h xs) \<Longrightarrow>
     r < length (h_bindings h)"
  by (auto simp: lflatten_def list_all_iff dest: flatten_in_range)

lemma extend_context_frame:
  "h_contexts (extend_context cc h r) = h_contexts h"
  "h_keymaps (extend_context cc h r) = h_keymaps h"
  "length (h_bindings (extend_context cc h r)) = length (h_bindings h)"
  by (simp_all add: extend_context_def)

lemma foldl_extend_context_frame:
  "h_contexts (foldl (extend_context cc) h bs) = h_contexts h"
  "h_keymaps (foldl (extend_context cc) h bs) = h_keymaps h"
  "length (h_bindings (foldl (extend_context cc) h bs)) = length (h_bindings h)"
  by (induction bs arbitrary: h) (simp_all add: extend_context_frame)

lemma foldl_extend_context_nth:
  "r < length (h_bindings h) \<Longrightarrow>
     h_bindings (foldl (extend_context cc) h bs) ! r =
       (h_bindings h ! r)\<lparr>context' :=
          context' (h_bindings h ! r) @ concat (replicate (count_list bs r) cc)\<rparr>"
proof (induction bs arbitrary: h)
  case Nil
  then show ?case by simp
next
  case (Cons b bs)
  have len: "r < length (h_bindings (extend_context cc h b))"
    using Cons.prems by (simp add: extend_context_frame)
  have "h_bindings (foldl (extend_context cc) h (b # bs)) ! r =
          h_bindings (foldl (extend_context cc) (extend_context cc h b) bs) ! r"
    by simp
  also have "\<dots> = (h_bindings (extend_context cc h b) ! r)\<lparr>context' :=
          context' (h_bindings (extend_context cc h b) ! r) @
            concat (replicate (count_list bs r) cc)\<rparr>"
    by (rule Cons.IH[OF len])
  also have "\<dots> = (h_bindings h ! r)\<lparr>context' :=
          context' (h_bindings h ! r) @ concat (replicate (count_list (b # bs) r) cc)\<rparr>"
    using Cons.prems by (cases "b = r") (simp_all add: extend_context_def)
  finally show ?case .
qed

lemma set_default_match_all_frame:
  "h_bindings (set_default_match_all d h c) = h_bindings h"
  "h_keymaps (set_default_match_all d h c) = h_keymaps h"
  "length (h_contexts (set_default_match_all d h c)) = length (h_contexts h)"
  by (simp_all add: set_default_match_all_def)

lemma foldl_set_default_frame:
  "h_bindings (foldl (set_default_match_all d) h cs) = h_bindings h"
  "h_keymaps (foldl (set_default_match_all d) h cs) = h_keymaps h"
  "length (h_contexts (foldl (set_default_match_all d) h cs)) = length (h_contexts h)"
  by (induction cs arbitrary: h) (simp_all add: set_default_match_all_frame)

lemma or_default_idem: "or_default d (or_default d m) = or_default d m"
  by (cases m; cases d) (simp_all add: or_default_def)

lemma set_default_match_all_nth:
  "c < length (h_contexts h) \<Longrightarrow>
     h_contexts (set_default_match_all d h x) ! c =
       (if c = x then (h_contexts h ! c)\<lparr>match_all := or_default d (match_all (h_contexts h ! c))\<rparr>
        else h_contexts h ! c)"
  by (cases "match_all (h_contexts h ! x)") (auto simp: set_default_match_all_def or_default_def)

lemma foldl_set_default_nth:
  "c < length (h_contexts h) \<Longrightarrow>
     h_contexts (foldl (set_default_match_all d) h cs) ! c =
       (if c \<in> set cs
        then (h_contexts h ! c)\<lparr>match_all := or_default d (match_all (h_contexts h ! c))\<rparr>
        else h_contexts h ! c)"
proof (induction cs arbitrary: h)
  case Nil
  then show ?case by simp
next
  case (Cons x cs)
  have len: "c < length (h_contexts (set_default_match_all d h x))"
    using Cons.prems by (simp add: set_default_match_all_frame)
  show ?case
    using Cons.prems
    by (simp add: Cons.IH[OF len] set_default_match_all_nth or_default_idem)
qed

lemma preprocess_unfold:
  assumes "list_all (wf_item h) xs"
  shows "preprocess self h xs =
     (let bs = map (\<lambda>r. r + length (h_bindings h)) (lflatten h xs);
          h2 = foldl (extend_context (common_context self)) (clone_heap h) bs
      in (foldl (set_default_match_all (default_match_all self)) h2
            (concat (map (\<lambda>b. context' (h_bindings h2 ! b)) bs)), bs))"
proof -
  have "lflatten (clone_heap h) (map (copy_item (length (h_bindings h)) (length (h_keymaps h))) xs)
          = map (\<lambda>r. r + length (h_bindings h)) (lflatten h xs)"
    using lflatten_deepcopy[OF assms] by (simp add: deepcopy_def)
  then show ?thesis
    by (simp add: preprocess_def deepcopy_def apply_common_context_def
          apply_default_match_all_def Let_def)
qed

lemma count_list_map_add: "count_list (map (\<lambda>r. r + (n::nat)) rs) (r + n) = count_list rs r"
  by (induction rs) auto

lemma preprocess_state:
  assumes wf: "wf_heap h" and items: "list_all (wf_item h) xs"
      and cc: "\<forall>c \<in> set (common_context self). c < length (h_contexts h)"
      and pre: "preprocess self h xs = (h', bs)"
  shows "bs = map (\<lambda>r. r + length (h_bindings h)) (lflatten h xs)"
    and "\<And>r. r \<in> set (lflatten h xs) \<Longrightarrow>
           h_bindings h' ! (r + length (h_bindings h)) =
             (h_bindings h ! r)\<lparr>context' :=
                map (\<lambda>c. c + length (h_contexts h)) (context' (h_bindings h ! r)) @
                concat (replicate (count_list (lflatten h xs) r) (common_context self))\<rparr>"
    and "\<And>r c. r \<in> set (lflatten h xs) \<Longrightarrow> c \<in> set (context' (h_bindings h ! r)) \<Longrightarrow>
           h_contexts h' ! (c + length (h_contexts h)) =
             (h_contexts h ! c)\<lparr>match_all :=
                  or_default (default_match_all self) (match_all (h_contexts h ! c)),
                parent := map_option (\<lambda>p. p + length (h_bindings h)) (parent (h_contexts h ! c))\<rparr>"
    and "\<And>c. lflatten h xs \<noteq> [] \<Longrightarrow> c \<in> set (common_context self) \<Longrightarrow>
           h_contexts h' ! c =
             (h_contexts h ! c)\<lparr>match_all :=
                  or_default (default_match_all self) (match_all (h_contexts h ! c))\<rparr>"
proof -
  let ?nb = "length (h_bindings h)"
  let ?nc = "length (h_contexts h)"
  let ?flat = "lflatten h xs"
  let ?bs = "map (\<lambda>r. r + ?nb) ?flat"
  let ?h1 = "clone_heap h"
  let ?h2 = "foldl (extend_context (common_context self)) ?h1 ?bs"
  let ?cs = "concat (map (\<lambda>b. context' (h_bindings ?h2 ! b)) ?bs)"
  let ?d = "default_match_all self"
  have "preprocess self h xs = (foldl (set_default_match_all ?d) ?h2 ?cs, ?bs)"
    by (simp only: preprocess_unfold[OF items] Let_def)
  with pre have "(h', bs) = (foldl (set_default_match_all ?d) ?h2 ?cs, ?bs)"
    by (simp only:)
  then have h': "h' = foldl (set_default_match_all ?d) ?h2 ?cs" and bs: "bs = ?bs"
    by (auto simp only: prod.inject)
  show "bs = ?bs" by (rule bs)
  have range: "r < ?nb" if "r \<in> set ?flat" for r
    using lflatten_in_range[OF wf items that] .
  have b2: "h_bindings ?h2 ! (r + ?nb) =
             (h_bindings h ! r)\<lparr>context' := map (\<lambda>c. c + ?nc) (context' (h_bindings h ! r)) @
                concat (replicate (count_list ?flat r) (common_context self))\<rparr>"
    if "r \<in> set ?flat" for r
  proof -
    have "r + ?nb < length (h_bindings ?h1)"
      using range[OF that] by (simp add: clone_heap_lengths)
    then have "h_bindings ?h2 ! (r + ?nb) =
        (h_bindings ?h1 ! (r + ?nb))\<lparr>context' := context' (h_bindings ?h1 ! (r + ?nb)) @
           concat (replicate (count_list ?bs (r + ?nb)) (common_context self))\<rparr>"
      by (rule foldl_extend_context_nth)
    then show ?thesis
      by (simp add: clone_heap_new(2)[OF range[OF that]] copy_Binding_def count_list_map_add)
  qed
  show "h_bindings h' ! (r + ?nb) =
             (h_bindings h ! r)\<lparr>context' := map (\<lambda>c. c + ?nc) (context' (h_bindings h ! r)) @
                concat (replicate (count_list ?flat r) (common_context self))\<rparr>"
    if "r \<in> set ?flat" for r
    using b2[OF that] by (simp add: h' foldl_set_default_frame)
  have len2: "length (h_contexts ?h2) = 2 * ?nc"
    by (simp add: foldl_extend_context_frame clone_heap_lengths)
  have c2: "h_contexts ?h2 = h_contexts ?h1"
    by (simp add: foldl_extend_context_frame)
  have count: "0 < count_list ?flat r" if "r \<in> set ?flat" for r
    using that count_list_0_iff[of ?flat r] by (cases "count_list ?flat r") auto
  show "h_contexts h' ! (c + ?nc) =
          (h_contexts h ! c)\<lparr>match_all := or_default ?d (match_all (h_contexts h ! c)),
             parent := map_option (\<lambda>p. p + ?nb) (parent (h_contexts h ! c))\<rparr>"
    if r: "r \<in> set ?flat" and c: "c \<in> set (context' (h_bindings h ! r))" for r c
  proof -
    have "h_bindings h ! r \<in> set (h_bindings h)"
      using range[OF r] by simp
    with wf c have lt: "c < ?nc"
      by (auto simp: wf_heap_def)
    have "c + ?nc \<in> set (context' (h_bindings ?h2 ! (r + ?nb)))"
      using c by (simp add: b2[OF r])
    then have mem: "c + ?nc \<in> set ?cs"
      using r by auto
    have "h_contexts h' ! (c + ?nc) =
        (h_contexts ?h2 ! (c + ?nc))\<lparr>match_all :=
           or_default ?d (match_all (h_contexts ?h2 ! (c + ?nc)))\<rparr>"
      unfolding h' using lt mem by (subst foldl_set_default_nth) (simp_all add: len2)
    then show ?thesis
      by (simp add: c2 clone_heap_new(1)[OF lt] copy_Context_def)
  qed
  show "h_contexts h' ! c =
          (h_contexts h ! c)\<lparr>match_all := or_default ?d (match_all (h_contexts h ! c))\<rparr>"
    if ne: "?flat \<noteq> []" and c: "c \<in> set (common_context self)" for c
  proof -
    from cc c have lt: "c < ?nc" by simp
    from ne obtain r where r: "r \<in> set ?flat"
      by (cases ?flat) auto
    from count[OF r] obtain n where n: "count_list ?flat r = Suc n"
      by (cases "count_list ?flat r") auto
    have "c \<in> set (context' (h_bindings ?h2 ! (r + ?nb)))"
      using c by (simp add: b2[OF r] n)
    then have mem: "c \<in> set ?cs"
      using r by auto
    have "h_contexts h' ! c =
        (h_contexts ?h2 ! c)\<lparr>match_all := or_default ?d (match_all (h_contexts ?h2 ! c))\<rparr>"
      unfolding h' using lt mem by (subst foldl_set_default_nth) (simp_all add: len2)
    then show ?thesis
      by (simp add: c2 clone_heap_old(1)[OF lt])
  qed
qed

text \<open>
  What \<^verbatim>\<open>__init__\<close> and \<^verbatim>\<open>extend\<close> do with the result of \<^verbatim>\<open>_preprocess\<close>: the
  former stores it, the latter appends it to what is stored, so that the length of a
  keymap grows by the number of bindings in the flattened batch.
\<close>

lemma preprocess_keymaps:
  "h_keymaps (fst (preprocess self h xs)) = h_keymaps (clone_heap h)"
  by (simp add: preprocess_def deepcopy_def apply_common_context_def
        apply_default_match_all_def Let_def foldl_set_default_frame foldl_extend_context_frame)

lemma Keymap_init_stores:
  "bindings (h_keymaps (fst (Keymap_init h xs d cc)) ! snd (Keymap_init h xs d cc)) =
     snd (preprocess \<lparr>default_match_all = d, common_context = cc, bindings = []\<rparr> h xs)"
  by (simp add: Keymap_init_def Let_def split: prod.splits)

lemma Keymap_extend_appends:
  assumes "self < length (h_keymaps h)"
  shows "bindings (h_keymaps (fst (Keymap_extend h self xs)) ! self) =
           bindings (h_keymaps h ! self) @ snd (preprocess (h_keymaps h ! self) h xs)"
proof -
  obtain h1 bs where p: "preprocess (h_keymaps h ! self) h xs = (h1, bs)"
    by (cases "preprocess (h_keymaps h ! self) h xs")
  have k: "h_keymaps h1 = h_keymaps (clone_heap h)"
    using preprocess_keymaps[of "h_keymaps h ! self" h xs] by (simp add: p)
  have "self < length (h_keymaps h1)"
    using assms by (simp add: k clone_heap_lengths)
  moreover have "h_keymaps h1 ! self = h_keymaps h ! self"
    using assms by (simp add: k clone_heap_old)
  ultimately show ?thesis
    by (simp add: Keymap_extend_def p Let_def)
qed

lemma Keymap_len_extend:
  assumes "self < length (h_keymaps h)" and "list_all (wf_item h) xs"
  shows "Keymap_len (fst (Keymap_extend h self xs)) self =
           Keymap_len h self + length (lflatten h xs)"
proof -
  have "snd (preprocess (h_keymaps h ! self) h xs) =
          map (\<lambda>r. r + length (h_bindings h)) (lflatten h xs)"
    by (simp add: preprocess_unfold[OF assms(2)] Let_def)
  then show ?thesis
    by (simp add: Keymap_len_def Keymap_extend_appends[OF assms(1)])
qed

subsection \<open>Preprocessing: the stored bindings\<close>

lemma count_list_distinct: "distinct xs \<Longrightarrow> x \<in> set xs \<Longrightarrow> count_list xs x = 1"
  by (induction xs) auto

lemma preprocess_example:
  "preprocess keymap_example heap_example [BindingObj 0, PyList [BindingObj 1]] =
     (heap_example_after, [4, 5])"
  by code_simp

text \<open>
  C1, as the code has it. Let a keymap preprocess a batch in which no binding object occurs
  twice. Then the \<open>i\<close>-th stored binding is a fresh clone of the \<open>i\<close>-th binding of
  the flattened batch, and its \<^verbatim>\<open>context\<close> is the sequence of the clones of the original
  conditions, in their order, followed by the keymap's common conditions, in their order.
  The clones carry the attributes of the originals, but for \<^verbatim>\<open>match_all\<close>, where unset
  is replaced by the keymap's default, and for the parent, which is the clone of the
  original's. The common conditions are not cloned: the stored sequence ends with the very
  addresses held in \<^verbatim>\<open>_common_context\<close>, objects that existed before the call, and the
  default is written into these objects.
\<close>

theorem preprocess_context_sequence:
  assumes "wf_heap h" and "list_all (wf_item h) xs"
      and "\<forall>c \<in> set (common_context self). c < length (h_contexts h)"
      and "distinct (lflatten h xs)"
      and "preprocess self h xs = (h', bs)"
      and "i < length bs"
  shows "(let r = lflatten h xs ! i in
          bs ! i = r + length (h_bindings h) \<and>
          h_bindings h' ! (bs ! i) =
            (h_bindings h ! r)\<lparr>context' :=
               map (\<lambda>c. c + length (h_contexts h)) (context' (h_bindings h ! r)) @
               common_context self\<rparr> \<and>
          (\<forall>c \<in> set (context' (h_bindings h ! r)).
             h_contexts h' ! (c + length (h_contexts h)) =
               (h_contexts h ! c)\<lparr>match_all :=
                    or_default (default_match_all self) (match_all (h_contexts h ! c)),
                  parent :=
                    map_option (\<lambda>p. p + length (h_bindings h)) (parent (h_contexts h ! c))\<rparr>) \<and>
          (\<forall>c \<in> set (common_context self).
             c < length (h_contexts h) \<and>
             h_contexts h' ! c =
               (h_contexts h ! c)\<lparr>match_all :=
                    or_default (default_match_all self) (match_all (h_contexts h ! c))\<rparr>))"
proof -
  let ?flat = "lflatten h xs"
  let ?r = "?flat ! i"
  note st = preprocess_state[OF assms(1,2,3,5)]
  from assms(6) have i: "i < length ?flat"
    by (simp add: st(1))
  then have r: "?r \<in> set ?flat"
    by simp
  then have ne: "?flat \<noteq> []"
    by auto
  have one: "count_list ?flat ?r = 1"
    using assms(4) r by (rule count_list_distinct)
  have "bs ! i = ?r + length (h_bindings h)"
    using i by (simp add: st(1))
  moreover have "h_bindings h' ! (bs ! i) =
            (h_bindings h ! ?r)\<lparr>context' :=
               map (\<lambda>c. c + length (h_contexts h)) (context' (h_bindings h ! ?r)) @
               common_context self\<rparr>"
    using st(2)[OF r] i by (simp add: st(1) one)
  ultimately show ?thesis
    using st(3)[OF r] st(4)[OF ne] assms(3) by (simp add: Let_def)
qed

theorem preprocess_context_sequence_witness:
  "wf_heap heap_example \<and>
   list_all (wf_item heap_example) [BindingObj 0, PyList [BindingObj 1]] \<and>
   common_context keymap_example = [0] \<and> length (h_contexts heap_example) = 6 \<and>
   distinct (lflatten heap_example [BindingObj 0, PyList [BindingObj 1]]) \<and>
   preprocess keymap_example heap_example [BindingObj 0, PyList [BindingObj 1]] =
     (heap_example_after, [4, 5]) \<and>
   h_bindings heap_example_after ! 4 =
     \<lparr>keys = [''x''], command = Some ''fire'', args = PDict [], context' = [7, 8, 0]\<rparr> \<and>
   h_contexts heap_example_after ! 8 =
     \<lparr>key = PStr ''bar'', operator = Some ''equal'', operand = PBool True,
      match_all = Some True, parent = Some 4\<rparr> \<and>
   h_contexts heap_example_after ! 0 =
     \<lparr>key = PStr ''selector'', operator = Some ''equal'', operand = PStr ''text.asciidoc'',
      match_all = Some True, parent = None\<rparr>"
proof -
  let ?xs = "[BindingObj 0, PyList [BindingObj 1]]"
  have wf: "wf_heap heap_example"
    by (simp add: wf_heap_def heap_example_def)
  have items: "list_all (wf_item heap_example) ?xs"
    by (simp add: heap_example_def)
  have cc: "\<forall>c \<in> set (common_context keymap_example). c < length (h_contexts heap_example)"
    by (simp add: keymap_example_def heap_example_def)
  have dist: "distinct (lflatten heap_example ?xs)"
    by (simp add: lflatten_def)
  have len: "0 < length [4::nat, 5]"
    by simp
  have n: "common_context keymap_example = [0]" "length (h_contexts heap_example) = 6"
    by (simp_all add: keymap_example_def heap_example_def)
  show ?thesis
    using preprocess_context_sequence[OF wf items cc dist preprocess_example len]
      wf items n dist preprocess_example
    by (simp add: heap_example_after_def)
qed

text \<open>
  After \<^verbatim>\<open>Keymap(b, common_context=[c], default_match_all=True)\<close> the stored binding,
  at address 1, holds in its \<^verbatim>\<open>context\<close> the address 0 of the caller's condition
  \<^verbatim>\<open>c\<close>, the only condition allocated before the call, and \<^verbatim>\<open>c.match_all\<close> has changed
  from \<^verbatim>\<open>None\<close> to \<^verbatim>\<open>True\<close>.
\<close>

theorem preprocess_shares_common_context:
  "length (h_contexts heap_shared) = 1 \<and>
   match_all (h_contexts heap_shared ! 0) = None \<and>
   snd (preprocess keymap_example heap_shared [BindingObj 0]) = [1] \<and>
   context' (h_bindings (fst (preprocess keymap_example heap_shared [BindingObj 0])) ! 1) = [0] \<and>
   match_all (h_contexts (fst (preprocess keymap_example heap_shared [BindingObj 0])) ! 0) =
     Some True"
  by code_simp

text \<open>
  What the statement above leaves out: a binding object that occurs twice in a batch is
  cloned once, and the loop of \<^verbatim>\<open>_apply_common_context\<close> visits the clone twice. After
  \<^verbatim>\<open>Keymap(b, b, common_context=[c])\<close> both stored entries are the binding at address 1,
  and its \<^verbatim>\<open>context\<close> holds \<^verbatim>\<open>c\<close> twice.
\<close>

lemma preprocess_duplicate_binding:
  "snd (preprocess keymap_example heap_shared [BindingObj 0, BindingObj 0]) = [1, 1] \<and>
   context' (h_bindings (fst (preprocess keymap_example heap_shared
       [BindingObj 0, BindingObj 0])) ! 1) = [0, 0]"
  by code_simp

text \<open>
  C2: for every binding that a keymap stores when it preprocesses a batch, and every
  condition of that binding: if \<^verbatim>\<open>match_all\<close> of the condition was unset when
  preprocessing began, it is the keymap's default afterwards; if it was set, it keeps its
  value; \<^verbatim>\<open>key\<close>, \<^verbatim>\<open>operator\<close> and \<^verbatim>\<open>operand\<close> are as they were.
\<close>

theorem preprocess_default_match_all:
  assumes "wf_heap h" and "list_all (wf_item h) xs"
      and "\<forall>c \<in> set (common_context self). c < length (h_contexts h)"
      and "preprocess self h xs = (h', bs)"
      and "b \<in> set bs" and "c \<in> set (context' (h_bindings h' ! b))"
  shows "(match_all (h_contexts h ! origin (length (h_contexts h)) c) = None
            \<longrightarrow> match_all (h_contexts h' ! c) = default_match_all self) \<and>
         (match_all (h_contexts h ! origin (length (h_contexts h)) c) \<noteq> None
            \<longrightarrow> match_all (h_contexts h' ! c) =
                match_all (h_contexts h ! origin (length (h_contexts h)) c)) \<and>
         key (h_contexts h' ! c) = key (h_contexts h ! origin (length (h_contexts h)) c) \<and>
         operator (h_contexts h' ! c) =
           operator (h_contexts h ! origin (length (h_contexts h)) c) \<and>
         operand (h_contexts h' ! c) =
           operand (h_contexts h ! origin (length (h_contexts h)) c)"
proof -
  let ?nc = "length (h_contexts h)"
  let ?nb = "length (h_bindings h)"
  let ?flat = "lflatten h xs"
  let ?d = "default_match_all self"
  note st = preprocess_state[OF assms(1,2,3,4)]
  from assms(5) obtain r where r: "r \<in> set ?flat" and b: "b = r + ?nb"
    by (auto simp: st(1))
  from r have ne: "?flat \<noteq> []"
    by auto
  have "set (concat (replicate n (common_context self))) \<subseteq> set (common_context self)" for n
    by (induction n) auto
  with assms(6) have "c \<in> (\<lambda>c. c + ?nc) ` set (context' (h_bindings h ! r)) \<or>
      c \<in> set (common_context self)"
    by (auto simp: b st(2)[OF r])
  then have eq: "h_contexts h' ! c =
      (h_contexts h ! origin ?nc c)\<lparr>match_all :=
          or_default ?d (match_all (h_contexts h ! origin ?nc c)),
        parent := parent (h_contexts h' ! c)\<rparr>"
  proof
    assume "c \<in> (\<lambda>c. c + ?nc) ` set (context' (h_bindings h ! r))"
    then obtain c0 where c0: "c0 \<in> set (context' (h_bindings h ! r))" and c: "c = c0 + ?nc"
      by auto
    have "origin ?nc c = c0"
      by (simp add: origin_def c)
    then show ?thesis
      by (simp add: c st(3)[OF r c0])
  next
    assume c: "c \<in> set (common_context self)"
    with assms(3) have "origin ?nc c = c"
      by (simp add: origin_def)
    then show ?thesis
      by (simp add: st(4)[OF ne c])
  qed
  have "match_all (h_contexts h' ! c) =
        or_default ?d (match_all (h_contexts h ! origin ?nc c))"
    using arg_cong[OF eq, of match_all] by simp
  moreover have "key (h_contexts h' ! c) = key (h_contexts h ! origin ?nc c)"
    using arg_cong[OF eq, of key] by simp
  moreover have "operator (h_contexts h' ! c) = operator (h_contexts h ! origin ?nc c)"
    using arg_cong[OF eq, of operator] by simp
  moreover have "operand (h_contexts h' ! c) = operand (h_contexts h ! origin ?nc c)"
    using arg_cong[OF eq, of operand] by simp
  ultimately show ?thesis
    by (auto simp: or_default_def)
qed

theorem preprocess_default_match_all_witness:
  "wf_heap heap_example \<and>
   list_all (wf_item heap_example) [BindingObj 0, PyList [BindingObj 1]] \<and>
   common_context keymap_example = [0] \<and> length (h_contexts heap_example) = 6 \<and>
   preprocess keymap_example heap_example [BindingObj 0, PyList [BindingObj 1]] =
     (heap_example_after, [4, 5]) \<and>
   context' (h_bindings heap_example_after ! 4) = [7, 8, 0] \<and>
   match_all (h_contexts heap_example ! origin 6 7) = Some False \<and>
   match_all (h_contexts heap_example_after ! 7) = Some False \<and>
   match_all (h_contexts heap_example ! origin 6 8) = None \<and>
   match_all (h_contexts heap_example_after ! 8) = Some True \<and>
   match_all (h_contexts heap_example ! origin 6 0) = None \<and>
   match_all (h_contexts heap_example_after ! 0) = Some True"
proof -
  let ?xs = "[BindingObj 0, PyList [BindingObj 1]]"
  have wf: "wf_heap heap_example"
    by (simp add: wf_heap_def heap_example_def)
  have items: "list_all (wf_item heap_example) ?xs"
    by (simp add: heap_example_def)
  have cc: "\<forall>c \<in> set (common_context keymap_example). c < length (h_contexts heap_example)"
    by (simp add: keymap_example_def heap_example_def)
  have b: "4 \<in> set [4::nat, 5]"
    by simp
  have ctx: "context' (h_bindings heap_example_after ! 4) = [7, 8, 0]"
    by (simp add: heap_example_after_def)
  have c4: "7 \<in> set (context' (h_bindings heap_example_after ! 4))"
    and c5: "8 \<in> set (context' (h_bindings heap_example_after ! 4))"
    and c0: "0 \<in> set (context' (h_bindings heap_example_after ! 4))"
    by (simp_all add: ctx)
  have n: "length (h_contexts heap_example) = 6"
    by (simp add: heap_example_def)
  have k: "common_context keymap_example = [0]"
    by (simp add: keymap_example_def)
  have o: "match_all (h_contexts heap_example ! origin 6 7) = Some False"
      "match_all (h_contexts heap_example ! origin 6 8) = None"
      "match_all (h_contexts heap_example ! origin 6 0) = None"
    by (simp_all add: origin_def heap_example_def)
  show ?thesis
    using preprocess_default_match_all[OF wf items cc preprocess_example b c4]
      preprocess_default_match_all[OF wf items cc preprocess_example b c5]
      preprocess_default_match_all[OF wf items cc preprocess_example b c0]
      wf items k preprocess_example ctx o
    by (simp add: n keymap_example_def)
qed

lemma lflatten_BindingObj:
  "lflatten h' (map (copy_item nb nk) (map BindingObj rs)) = map (\<lambda>r. r + nb) rs"
  by (induction rs) (simp_all add: lflatten_def)

text \<open>
  C4: preprocessing bindings nested in lists, tuples and keymaps gives the same list of
  stored bindings as preprocessing the flat sequence of these bindings, in the same order
  (a nested keymap standing for the bindings it stores). Since \<open>deepcopy\<close> here clones
  every object, the two runs even end in the same store.
\<close>

theorem preprocess_nested_eq_flat:
  assumes "list_all (wf_item h) xs"
  shows "preprocess self h xs = preprocess self h (map BindingObj (lflatten h xs))"
proof -
  let ?nb = "length (h_bindings h)"
  let ?nk = "length (h_keymaps h)"
  have "lflatten (clone_heap h) (map (copy_item ?nb ?nk) xs) =
          map (\<lambda>r. r + ?nb) (lflatten h xs)"
    using lflatten_deepcopy[OF assms] by (simp add: deepcopy_def)
  also have "\<dots> = lflatten (clone_heap h)
      (map (copy_item ?nb ?nk) (map BindingObj (lflatten h xs)))"
    by (rule lflatten_BindingObj[symmetric])
  finally show ?thesis
    unfolding preprocess_def deepcopy_def Let_def prod.case by (simp only:)
qed

theorem preprocess_nested_eq_flat_witness:
  "list_all (wf_item heap_example) nested_example \<and>
   lflatten heap_example nested_example = [0, 3, 1] \<and>
   preprocess keymap_example heap_example nested_example =
     preprocess keymap_example heap_example [BindingObj 0, BindingObj 3, BindingObj 1]"
proof -
  have items: "list_all (wf_item heap_example) nested_example"
    by (simp add: heap_example_def nested_example_def)
  have flat: "lflatten heap_example nested_example = [0, 3, 1]"
    by (simp add: lflatten_def heap_example_def nested_example_def)
  show ?thesis
    using preprocess_nested_eq_flat[OF items, of keymap_example] items flat
    by simp
qed

end
